theory Spec2Isabelle
  imports Main
begin

section \<open>The Vulkan tensor \<open>vTensor\<close> and its host-access \<open>Future\<close>\<close>

text \<open>
  A shallow embedding of \<open>at::native::vulkan::ops::vTensor\<close> and of its nested class
  template \<open>vTensor::Future<Type, kAccess>\<close>. A member \<open>x_\<close> of the C++ classes is the
  record field \<open>m_x\<close> here (an identifier may not end in an underscore); the template
  argument \<open>kAccess\<close> of a Future is a field of the record, fixed for the lifetime of the
  object.
\<close>

subsection \<open>Access flags\<close>

text \<open>
  \<open>vTensor::Access\<close> is \<open>api::Resource::Memory::Access\<close>, a bit mask whose flags are
  \<open>Access::Read\<close> and \<open>Access::Write\<close>. A value of \<open>Access::Flags\<close> is the set of the
  flags it has; the test \<open>kAccess & Access::Write\<close> is \<open>Write \<in> kAccess\<close>.
\<close>

datatype Access = Read | Write

type_synonym Flags = "Access set"

subsection \<open>Resources\<close>

text \<open>
  \<open>api::Resource::Buffer\<close> and \<open>api::Resource::Image\<close> are declared in
  \<open>api/Resource.h\<close>. Of a resource the tensor uses two things: its conversion to \<open>bool\<close>
  (in \<open>tensor_->staging_ ? ... : ...\<close>) and its member \<open>memory\<close>. A memory allocation is
  identified by a number.
\<close>

type_synonym Memory = nat

record Resource =
  present :: bool
  memory :: Memory

text \<open>
  Modelled from the spec: the conversion of \<open>api::Resource::Buffer\<close> to \<open>bool\<close>, declared
  in \<open>api/Resource.h\<close>. A representation is an optional owned handle; the
  conversion tells whether the handle is there ("the staging buffer if present").
\<close>

definition operator_bool :: "Resource \<Rightarrow> bool" where
  "operator_bool r = present r"

subsection \<open>The tensor\<close>

text \<open>The three one-bit fields of the anonymous struct \<open>dirty_\<close>.\<close>

record dirty_bits =
  image :: bool
  buffer :: bool
  staging :: bool

text \<open>
  The data members of \<open>vTensor\<close>. The context is a pointer (\<open>None\<close> is \<open>nullptr\<close>), the
  sizes are 64-bit integers, the tensor options are opaque here.
\<close>

record vTensor =
  m_image :: Resource
  m_buffer :: Resource
  m_staging :: Resource
  m_context :: "nat option"
  m_sizes :: "int list"
  m_options :: nat
  m_dirty :: dirty_bits

text \<open>
  A \<open>vTensor*\<close> is an address or \<open>nullptr\<close>. The heap gives the tensor at each address;
  that a non-null pointer points to a live tensor is the caller's obligation in the
  C++ code, and is built into the type here.
\<close>

type_synonym addr = nat

type_synonym heap = "addr \<Rightarrow> vTensor"

subsection \<open>Errors and build modes\<close>

text \<open>
  \<open>TORCH_CHECK\<close> and \<open>TORCH_INTERNAL_ASSERT\<close> (macros of c10) throw \<open>c10::Error\<close>
  when their condition is false; the specification calls the failure of a Future
  without a tensor \<open>InvalidStateError\<close>. \<open>ConversionFailureError\<close> is the failure of a copy or a format
  conversion on the device.
\<close>

datatype error = InvalidStateError | ConversionFailureError

text \<open>
  \<open>TORCH_INTERNAL_ASSERT_DEBUG_ONLY\<close> checks its condition in a debug build only; in a
  release build (\<open>NDEBUG\<close> defined) it expands to nothing that runs. The build mode is a
  parameter of every function that uses the macro.
\<close>

datatype build = Debug | Release

definition TORCH_INTERNAL_ASSERT_DEBUG_ONLY :: "build \<Rightarrow> bool \<Rightarrow> error + unit" where
  "TORCH_INTERNAL_ASSERT_DEBUG_ONLY b cond =
     (case b of
        Debug \<Rightarrow> (if cond then Inr () else Inl InvalidStateError)
      | Release \<Rightarrow> Inr ())"

subsection \<open>The Future\<close>

text \<open>
  The element type of a Future is a cv-qualified type: the name of the type without its
  qualifiers, and the two qualifiers. The types named are \<open>void\<close> and the arithmetic
  types (\<open>float\<close>, \<open>int\<close>, ...); class types, arrays, references and function types are
  not among them.
\<close>

record ctype =
  unqualified :: string
  const_qualified :: bool
  volatile_qualified :: bool

text \<open>\<open>std::add_const_t<T>\<close>.\<close>

definition add_const :: "ctype \<Rightarrow> ctype" where
  "add_const ty = ty\<lparr>const_qualified := True\<rparr>"

text \<open>
  The template arguments \<open>Type\<close> (the element type) and \<open>kAccess\<close>, and the one data
  member \<open>tensor_\<close>.
\<close>

record Future =
  Type :: ctype
  kAccess :: Flags
  m_tensor :: "addr option"

text \<open>
  \<open>Future(vTensor* tensor)\<close>: the member is initialised from the argument, then the
  debug-only assertion runs.
\<close>

definition Future_ctor :: "build \<Rightarrow> ctype \<Rightarrow> Flags \<Rightarrow> addr option \<Rightarrow> error + Future" where
  "Future_ctor b ty access tensor =
     (let this = \<lparr>Type = ty, kAccess = access, m_tensor = tensor\<rparr> in
      case TORCH_INTERNAL_ASSERT_DEBUG_ONLY b (m_tensor this \<noteq> None) of
        Inl e \<Rightarrow> Inl e
      | Inr _ \<Rightarrow> Inr this)"

text \<open>
  The move operations act on two Future objects, which may be the same object. Futures
  live in a store, and an operation is given the locations of \<open>*this\<close> and of its
  argument \<open>future\<close>; the two assignments of the body happen in the order of the source.

  \<open>Future(Future&& future)\<close> builds the object at \<open>this\<close>, with the template arguments
  of its argument (the two have the same type).
\<close>

type_synonym loc = nat

type_synonym futures = "loc \<Rightarrow> Future"

definition Future_move_ctor :: "loc \<Rightarrow> loc \<Rightarrow> futures \<Rightarrow> futures" where
  "Future_move_ctor this future s =
     (let s1 = s(this := \<lparr>Type = Type (s future), kAccess = kAccess (s future),
                           m_tensor = m_tensor (s future)\<rparr>);
          s2 = s1(future := (s1 future)\<lparr>m_tensor := None\<rparr>)
      in s2)"

text \<open>\<open>Future& operator=(Future&& future) &\<close>.\<close>

definition Future_move_assign :: "loc \<Rightarrow> loc \<Rightarrow> futures \<Rightarrow> futures" where
  "Future_move_assign this future s =
     (let s1 = s(this := (s this)\<lparr>m_tensor := m_tensor (s future)\<rparr>);
          s2 = s1(future := (s1 future)\<lparr>m_tensor := None\<rparr>)
      in s2)"

text \<open>
  \<open>Payload\<close> is \<open>api::Resource::Memory::Data<Access::Pointer<Type, kAccess>>\<close>.

  Modelled from the spec: \<open>api::Resource::Memory::map<Type, kAccess>()\<close>, declared in
  \<open>api/Resource.h\<close>. Mapping a memory gives a Mapped Payload for that memory, "carrying
  the requested access right".
\<close>

record Payload =
  mapped :: Memory
  right :: Flags

definition Memory_map :: "Memory \<Rightarrow> Flags \<Rightarrow> Payload" where
  "Memory_map m access = \<lparr>mapped = m, right = access\<rparr>"

text \<open>
  \<open>Payload wait() const &\<close>. (The definition outside the class names its return type
  \<open>Future<Type, kAccess>::Data\<close>; the class declares the type under the name \<open>Payload\<close>,
  and the model follows the declaration.) \<open>TORCH_CHECK(tensor_, ...)\<close> throws when the
  pointer is null. The rest of the body reads \<open>staging_\<close> and \<open>buffer_\<close> of the tensor and
  maps a memory. It assigns to no member of the tensor, and \<open>dirty_\<close> is a private member
  of \<open>vTensor\<close> that \<open>Memory::map\<close> cannot reach, so the heap that \<open>wait\<close> returns is the
  heap it was given.
\<close>

definition wait :: "Future \<Rightarrow> heap \<Rightarrow> error + (Payload \<times> heap)" where
  "wait this h =
     (case m_tensor this of
        None \<Rightarrow> Inl InvalidStateError
      | Some a \<Rightarrow>
          (let tensor = h a;
               buffer = (if operator_bool (m_staging tensor)
                         then m_staging tensor
                         else m_buffer tensor)
           in Inr (Memory_map (memory buffer) (kAccess this), h)))"

text \<open>
  \<open>~Future()\<close>. The body of the conditional holds a comment only
  (\<open>// tensor->upload_eagerly();\<close>), so both branches leave the heap as it is.
\<close>

definition Future_dtor :: "Future \<Rightarrow> heap \<Rightarrow> heap" where
  "Future_dtor this h =
     (if m_tensor this \<noteq> None \<and> Write \<in> kAccess this then h else h)"

subsection \<open>Conversions between Futures\<close>

text \<open>
  The converting move constructor and move assignment are templates that take part in
  overload resolution only when \<open>is_convertible<T, A>\<close> is a type, that is when
  \<open>std::is_convertible<Access::Pointer<T, A>, Access::Pointer<Type, kAccess>>\<close> holds.

  A pointer type is given by the type pointed to.
\<close>

record pointer =
  pointee :: ctype

text \<open>
  \<open>std::is_convertible<From, To>\<close> for two pointer types: whether a \<open>From\<close> converts
  implicitly to a \<open>To\<close>. Between pointers to the types of \<open>ctype\<close> the implicit
  conversions are the conversion of a pointer to \<open>T\<close> into a pointer to \<open>void\<close> and the
  qualification conversion, which may add \<open>const\<close> and \<open>volatile\<close> to the pointee and
  drops neither.
\<close>

definition std_is_convertible :: "pointer \<Rightarrow> pointer \<Rightarrow> bool" where
  "std_is_convertible From To =
     ((unqualified (pointee To) = unqualified (pointee From) \<or>
       unqualified (pointee To) = ''void'') \<and>
      (const_qualified (pointee From) \<longrightarrow> const_qualified (pointee To)) \<and>
      (volatile_qualified (pointee From) \<longrightarrow> volatile_qualified (pointee To)))"

text \<open>
  \<open>is_convertible<T, A>\<close> inside \<open>Future<Type, kAccess>\<close>. The alias template
  \<open>Access::Pointer\<close> is declared in \<open>api/Resource.h\<close> and not in the header of the tensor:
  it is the parameter \<open>Pointer\<close>, which gives the pointer type for an element type and
  an access. The next two arguments are the template arguments of the enclosing class.
\<close>

definition is_convertible ::
    "(ctype \<Rightarrow> Flags \<Rightarrow> pointer) \<Rightarrow> ctype \<Rightarrow> Flags \<Rightarrow> ctype \<Rightarrow> Flags \<Rightarrow> bool" where
  "is_convertible Pointer ty access T A =
     std_is_convertible (Pointer T A) (Pointer ty access)"



text \<open>
  The alias that the conversions are studied with: a pointer to \<open>Type\<close> for an access
  with Write, a pointer to \<open>const Type\<close> for an access without; in the terms of C++,
  \<open>std::add_pointer_t<std::conditional_t<0u != (access & Write), Type,
  std::add_const_t<Type>>>\<close>. Under it the payload of a Future with Write can be written
  through and the payload of a read-only Future cannot. The declaration itself is in
  \<open>api/Resource.h\<close>, so every property of the conversions below either names this
  definition or states its rule as a hypothesis.
\<close>

definition Access_Pointer :: "ctype \<Rightarrow> Flags \<Rightarrow> pointer" where
  "Access_Pointer ty access =
     \<lparr>pointee = (if Write \<in> access then ty else add_const ty)\<rparr>"

subsection \<open>Ref-qualified member functions\<close>

text \<open>
  Which member function a call \<open>object.name<...>(...)\<close> reaches is decided at compile
  time from the declarations. A declaration is described by what overload resolution
  looks at: the name, the number of template parameters (no function parameter mentions
  them, so a call must give all of them explicitly), the number of function parameters,
  the cv- and ref-qualifier, whether it is deleted, and whether it is private.
\<close>

datatype ref_qualifier = no_ref | lvalue_ref | rvalue_ref

record member_function =
  name :: string
  template_parameters :: nat
  parameters :: nat
  is_const :: bool
  ref :: ref_qualifier
  is_deleted :: bool
  is_private :: bool

text \<open>The member functions named \<open>host\<close>, \<open>buffer\<close> and \<open>image\<close> of \<open>vTensor\<close>, in the order of their declaration.\<close>

definition vTensor_members :: "member_function list" where
  "vTensor_members =
    [\<lparr>name = ''host'', template_parameters = 1, parameters = 0, is_const = True,
      ref = lvalue_ref, is_deleted = False, is_private = False\<rparr>,
     \<lparr>name = ''host'', template_parameters = 2, parameters = 0, is_const = False,
      ref = lvalue_ref, is_deleted = False, is_private = False\<rparr>,
     \<lparr>name = ''buffer'', template_parameters = 0, parameters = 0, is_const = True,
      ref = lvalue_ref, is_deleted = False, is_private = False\<rparr>,
     \<lparr>name = ''buffer'', template_parameters = 0, parameters = 1, is_const = False,
      ref = lvalue_ref, is_deleted = False, is_private = False\<rparr>,
     \<lparr>name = ''image'', template_parameters = 0, parameters = 0, is_const = True,
      ref = lvalue_ref, is_deleted = False, is_private = False\<rparr>,
     \<lparr>name = ''image'', template_parameters = 0, parameters = 1, is_const = False,
      ref = lvalue_ref, is_deleted = False, is_private = False\<rparr>,
     \<lparr>name = ''host'', template_parameters = 0, parameters = 0, is_const = True,
      ref = no_ref, is_deleted = False, is_private = True\<rparr>,
     \<lparr>name = ''host'', template_parameters = 0, parameters = 1, is_const = False,
      ref = no_ref, is_deleted = False, is_private = True\<rparr>,
     \<lparr>name = ''host'', template_parameters = 1, parameters = 0, is_const = True,
      ref = rvalue_ref, is_deleted = True, is_private = True\<rparr>,
     \<lparr>name = ''host'', template_parameters = 2, parameters = 0, is_const = False,
      ref = rvalue_ref, is_deleted = True, is_private = True\<rparr>,
     \<lparr>name = ''buffer'', template_parameters = 0, parameters = 0, is_const = True,
      ref = rvalue_ref, is_deleted = True, is_private = True\<rparr>,
     \<lparr>name = ''buffer'', template_parameters = 0, parameters = 1, is_const = False,
      ref = rvalue_ref, is_deleted = True, is_private = True\<rparr>,
     \<lparr>name = ''image'', template_parameters = 0, parameters = 0, is_const = True,
      ref = rvalue_ref, is_deleted = True, is_private = True\<rparr>,
     \<lparr>name = ''image'', template_parameters = 0, parameters = 1, is_const = False,
      ref = rvalue_ref, is_deleted = True, is_private = True\<rparr>]"

text \<open>The two declarations of \<open>wait\<close> in \<open>Future\<close>.\<close>

definition Future_members :: "member_function list" where
  "Future_members =
    [\<lparr>name = ''wait'', template_parameters = 0, parameters = 0, is_const = True,
      ref = lvalue_ref, is_deleted = False, is_private = False\<rparr>,
     \<lparr>name = ''wait'', template_parameters = 0, parameters = 0, is_const = True,
      ref = rvalue_ref, is_deleted = True, is_private = True\<rparr>]"

text \<open>
  A call from outside the class: the name called, the numbers of explicit template
  arguments and of arguments, and the object expression: whether its type is const and
  whether it is an rvalue (a temporary or an expiring value) rather than an lvalue.
\<close>

record call =
  callee :: string
  template_arguments :: nat
  arguments :: nat
  object_const :: bool
  object_rvalue :: bool

text \<open>
  The implicit object parameter of a member function with ref-qualifier \<open>&\<close> is an
  lvalue reference: it binds an lvalue, and an rvalue only when it is a reference to
  const. With \<open>&&\<close> it is an rvalue reference and binds rvalues only. Without a
  ref-qualifier it binds both. A const object needs a const member function.
\<close>

definition binds :: "member_function \<Rightarrow> call \<Rightarrow> bool" where
  "binds f c =
     ((object_const c \<longrightarrow> is_const f) \<and>
      (case ref f of
         no_ref \<Rightarrow> True
       | lvalue_ref \<Rightarrow> \<not> object_rvalue c \<or> is_const f
       | rvalue_ref \<Rightarrow> object_rvalue c))"

definition viable :: "member_function \<Rightarrow> call \<Rightarrow> bool" where
  "viable f c =
     (name f = callee c \<and>
      template_parameters f = template_arguments c \<and>
      parameters f = arguments c \<and>
      binds f c)"

text \<open>
  Between two viable functions that differ in their implicit object parameter only, the
  one that binds an rvalue reference to an rvalue is better than the one that binds an
  lvalue reference, and the one whose reference is to the less cv-qualified type is
  better.
\<close>

definition better :: "member_function \<Rightarrow> member_function \<Rightarrow> bool" where
  "better f g =
     ((ref f = rvalue_ref \<and> ref g = lvalue_ref) \<or> (\<not> is_const f \<and> is_const g))"

text \<open>
  Overload resolution selects the viable function that is better than every other
  viable one; there is none when no function is viable or the call is ambiguous.
\<close>

definition resolve :: "member_function list \<Rightarrow> call \<Rightarrow> member_function option" where
  "resolve fs c =
     (let vs = filter (\<lambda>f. viable f c) fs in
      case filter (\<lambda>f. list_all (\<lambda>g. g = f \<or> better f g) vs) vs of
        [f] \<Rightarrow> Some f
      | _ \<Rightarrow> None)"

text \<open>
  The call compiles when a function is selected that is neither deleted nor, for a call
  from outside the class, private.
\<close>

definition well_formed :: "member_function list \<Rightarrow> call \<Rightarrow> bool" where
  "well_formed fs c =
     (case resolve fs c of
        None \<Rightarrow> False
      | Some f \<Rightarrow> \<not> is_deleted f \<and> \<not> is_private f)"

subsection \<open>The synchronization algorithm\<close>

datatype representation = Image | Buffer | Staging

fun dirty :: "representation \<Rightarrow> dirty_bits \<Rightarrow> bool" where
  "dirty Image d = image d"
| "dirty Buffer d = buffer d"
| "dirty Staging d = staging d"

fun set_dirty :: "representation \<Rightarrow> bool \<Rightarrow> dirty_bits \<Rightarrow> dirty_bits" where
  "set_dirty Image b d = d\<lparr>image := b\<rparr>"
| "set_dirty Buffer b d = d\<lparr>buffer := b\<rparr>"
| "set_dirty Staging b d = d\<lparr>staging := b\<rparr>"

text \<open>The other two representations, \<open>S1\<close> and \<open>S2\<close>, of a target \<open>R\<close>.\<close>

fun siblings :: "representation \<Rightarrow> representation \<times> representation" where
  "siblings Image = (Buffer, Staging)"
| "siblings Buffer = (Image, Staging)"
| "siblings Staging = (Buffer, Image)"

text \<open>
  Modelled from the spec: the bodies of \<open>vTensor::buffer\<close>, \<open>vTensor::image\<close> and of the
  private \<open>vTensor::host\<close>, which are defined in \<open>Tensor.cpp\<close>; the header declares them
  and the bits \<open>dirty_\<close> they maintain. The algorithm of the specification, for a target
  \<open>R\<close> with siblings \<open>S1\<close>, \<open>S2\<close>:
  \<^enum> if Write is in the access, skip to step 3;
  \<^enum> if Read is in the access and \<open>R\<close> is dirty, select a clean representation among
    \<open>S1\<close>, \<open>S2\<close>, run the conversion from it into \<open>R\<close>, clear \<open>dirty(R)\<close>;
  \<^enum> if Write is in the access, clear \<open>dirty(R)\<close> and set \<open>dirty(S1)\<close>, \<open>dirty(S2)\<close>.

  The conversion is the work of the device; whether it succeeds is the argument \<open>ok\<close>. A
  failed conversion is a \<open>ConversionFailureError\<close> and leaves the bits as they were. The
  specification promises a clean sibling only after the first write; where there is
  none, \<open>S2\<close> stands as the source. The result is the new bits and the conversion that
  ran, if any, as (source, target).
\<close>

definition synchronize ::
    "bool \<Rightarrow> representation \<Rightarrow> Flags \<Rightarrow> dirty_bits \<Rightarrow>
     error + (dirty_bits \<times> (representation \<times> representation) option)" where
  "synchronize ok R access d =
     (case siblings R of (S1, S2) \<Rightarrow>
        if Write \<in> access then
          Inr (set_dirty S2 True (set_dirty S1 True (set_dirty R False d)), None)
        else if Read \<in> access \<and> dirty R d then
          (let source = (if \<not> dirty S1 d then S1 else S2) in
           if ok then Inr (set_dirty R False d, Some (source, R))
           else Inl ConversionFailureError)
        else Inr (d, None))"

text \<open>
  A sequence of access calls on one tensor, each with its target, its access and the
  outcome of the conversion it may need. The result lists the bits after each call that
  completes; a call that fails leaves the bits to the next call as they were.
\<close>

fun accesses :: "(representation \<times> Flags \<times> bool) list \<Rightarrow> dirty_bits \<Rightarrow> dirty_bits list" where
  "accesses [] d = []"
| "accesses ((R, access, ok) # cs) d =
     (case synchronize ok R access d of
        Inl e \<Rightarrow> accesses cs d
      | Inr (d', c) \<Rightarrow> d' # accesses cs d')"

text \<open>At most two of the three bits are set.\<close>

definition at_most_two :: "dirty_bits \<Rightarrow> bool" where
  "at_most_two d = (\<not> (image d \<and> buffer d \<and> staging d))"

subsection \<open>Example values\<close>

text \<open>
  The element type \<open>float\<close>; a tensor of four elements that owns all three
  representations, with a stale staging buffer; a heap that holds it; a store of
  Write-only Futures of \<open>float\<close>.
\<close>

definition float_type :: ctype where
  "float_type =
     \<lparr>unqualified = ''float'', const_qualified = False, volatile_qualified = False\<rparr>"

definition example_tensor :: vTensor where
  "example_tensor =
     \<lparr>m_image = \<lparr>present = True, memory = 1\<rparr>,
      m_buffer = \<lparr>present = True, memory = 2\<rparr>,
      m_staging = \<lparr>present = True, memory = 3\<rparr>,
      m_context = Some 0, m_sizes = [4], m_options = 0,
      m_dirty = \<lparr>image = False, buffer = False, staging = True\<rparr>\<rparr>"

definition example_heap :: heap where
  "example_heap a = example_tensor"


section \<open>Properties of the Future\<close>

subsection \<open>Moved-from and null Futures\<close>

text \<open>
  C1. After a Future B has been move-constructed from a Future A, \<open>wait()\<close> on A fails
  with \<open>InvalidStateError\<close>: A holds no tensor any more.
\<close>

theorem moved_from_wait_fails:
  "m_tensor (Future_move_ctor b a s a) = None \<and>
   wait (Future_move_ctor b a s a) h = Inl InvalidStateError"
  by (simp add: Future_move_ctor_def wait_def Let_def)

text \<open>The constructed Future holds what its argument held.\<close>

lemma move_ctor_transfers:
  "b \<noteq> a \<Longrightarrow> m_tensor (Future_move_ctor b a s b) = m_tensor (s a)"
  by (simp add: Future_move_ctor_def Let_def)

text \<open>
  C10. Move-assigning a Future to itself leaves it without a tensor, so that a later
  \<open>wait()\<close> on it fails with \<open>InvalidStateError\<close>; every other Future of the store is as it
  was, so none has received the tensor.
\<close>

theorem self_move_assign_loses_tensor:
  "Future_move_assign f f s = s(f := (s f)\<lparr>m_tensor := None\<rparr>) \<and>
   wait (Future_move_assign f f s f) h = Inl InvalidStateError"
  by (simp add: Future_move_assign_def wait_def Let_def)

text \<open>
  Construction from a null pointer. In a release build the assertion does not run: the
  constructor returns a Future without a tensor.
\<close>

theorem null_tensor_release_counterexample:
  "Future_ctor Release float_type {Read} None =
     Inr \<lparr>Type = float_type, kAccess = {Read}, m_tensor = None\<rparr>"
  by (simp add: Future_ctor_def TORCH_INTERNAL_ASSERT_DEBUG_ONLY_def)

text \<open>
  C7, amended. Constructing a Future from a null pointer fails with \<open>InvalidStateError\<close>
  in a debug build. In a release build it succeeds and gives a Future without a tensor,
  on which \<open>wait()\<close> fails with \<open>InvalidStateError\<close>.
\<close>

theorem null_tensor_fails_in_debug_or_at_wait:
  "Future_ctor Debug ty access None = Inl InvalidStateError \<and>
   Future_ctor Release ty access None =
     Inr \<lparr>Type = ty, kAccess = access, m_tensor = None\<rparr> \<and>
   wait \<lparr>Type = ty, kAccess = access, m_tensor = None\<rparr> h = Inl InvalidStateError"
  by (simp add: Future_ctor_def TORCH_INTERNAL_ASSERT_DEBUG_ONLY_def wait_def)

subsection \<open>Waiting\<close>

text \<open>
  C2. \<open>wait()\<close> on a Future that holds a tensor maps the memory of the staging buffer when
  the tensor has one, and the memory of the device buffer otherwise, with the access of
  the Future.
\<close>

theorem wait_maps_staging_else_buffer:
  assumes "m_tensor f = Some a"
  shows "\<exists>h'. wait f h =
           Inr (Memory_map (if operator_bool (m_staging (h a))
                            then memory (m_staging (h a))
                            else memory (m_buffer (h a)))
                           (kAccess f), h')"
  using assms by (simp add: wait_def Let_def)

theorem wait_maps_staging_else_buffer_witness:
  "m_tensor \<lparr>Type = float_type, kAccess = {Read}, m_tensor = Some 0\<rparr> = Some 0 \<and>
   (\<exists>h'. wait \<lparr>Type = float_type, kAccess = {Read}, m_tensor = Some 0\<rparr> example_heap =
           Inr (\<lparr>mapped = 3, right = {Read}\<rparr>, h'))"
  using wait_maps_staging_else_buffer
    [of "\<lparr>Type = float_type, kAccess = {Read}, m_tensor = Some 0\<rparr>" 0 example_heap]
  by (simp add: example_heap_def example_tensor_def operator_bool_def Memory_map_def)

text \<open>
  \<open>wait()\<close> does not run the synchronization algorithm. The staging buffer of the example
  tensor is stale. A read access under the algorithm refreshes it from the device buffer
  and clears its bit; \<open>wait()\<close> maps the staging memory and leaves the bit set.
\<close>

theorem wait_synchronizes_counterexample:
  "wait \<lparr>Type = float_type, kAccess = {Read}, m_tensor = Some 0\<rparr> example_heap =
     Inr (\<lparr>mapped = 3, right = {Read}\<rparr>, example_heap) \<and>
   m_dirty (example_heap 0) = \<lparr>image = False, buffer = False, staging = True\<rparr> \<and>
   synchronize True Staging {Read} (m_dirty (example_heap 0)) =
     Inr (\<lparr>image = False, buffer = False, staging = False\<rparr>, Some (Buffer, Staging))"
  by (simp add: wait_def Let_def example_heap_def example_tensor_def operator_bool_def
      Memory_map_def synchronize_def)

text \<open>
  C5, amended. \<open>wait()\<close> on a Future that holds a tensor maps the memory of the
  representation that faces the host, the staging buffer when the tensor has one and
  the device buffer otherwise, and returns the payload with the access of the Future.
  It runs no step of the synchronization algorithm: no conversion, and every tensor, its
  dirty bits included, is as it was.
\<close>

theorem wait_maps_without_synchronizing:
  assumes "m_tensor f = Some a"
  shows "wait f h =
           Inr (\<lparr>mapped = (if operator_bool (m_staging (h a))
                            then memory (m_staging (h a))
                            else memory (m_buffer (h a))),
                 right = kAccess f\<rparr>, h)"
  using assms by (simp add: wait_def Let_def Memory_map_def)

theorem wait_maps_without_synchronizing_witness:
  "m_tensor \<lparr>Type = float_type, kAccess = {Read, Write}, m_tensor = Some 0\<rparr> = Some 0 \<and>
   wait \<lparr>Type = float_type, kAccess = {Read, Write}, m_tensor = Some 0\<rparr> example_heap =
     Inr (\<lparr>mapped = 3, right = {Read, Write}\<rparr>, example_heap) \<and>
   m_dirty (example_heap 0) = \<lparr>image = False, buffer = False, staging = True\<rparr>"
  using wait_maps_without_synchronizing
    [of "\<lparr>Type = float_type, kAccess = {Read, Write}, m_tensor = Some 0\<rparr>" 0 example_heap]
  by (simp add: example_heap_def example_tensor_def operator_bool_def)

subsection \<open>Destruction\<close>

text \<open>
  C6. The destructor of a Future with Write access that holds a tensor is meant to bring
  the modifications made on the host back to the device. The code does nothing: on the
  example heap the destructor of a read-write Future returns the heap it was given.
\<close>

theorem write_future_dtor_uploads_nothing:
  "Future_dtor \<lparr>Type = float_type, kAccess = {Read, Write}, m_tensor = Some 0\<rparr> example_heap
     = example_heap"
  by (simp add: Future_dtor_def)

subsection \<open>Conversions\<close>

text \<open>
  Which conversions the constraint accepts, for every two element types and accesses.
\<close>

lemma is_convertible_Access_Pointer:
  "is_convertible Access_Pointer ty access T A =
     ((unqualified ty = unqualified T \<or> unqualified ty = ''void'') \<and>
      (const_qualified T \<or> Write \<notin> A \<longrightarrow> const_qualified ty \<or> Write \<notin> access) \<and>
      (volatile_qualified T \<longrightarrow> volatile_qualified ty))"
  by (auto simp add: is_convertible_def std_is_convertible_def Access_Pointer_def
      add_const_def)

text \<open>
  For an element type that is const-qualified already the access makes no difference:
  every conversion between Futures of that type is accepted.
\<close>

lemma const_element_converts:
  "const_qualified ty \<Longrightarrow> is_convertible Access_Pointer ty access ty A"
  by (simp add: is_convertible_Access_Pointer)

text \<open>A pointer to \<open>float\<close> converts to a pointer to \<open>void\<close>, and not the other way.\<close>

lemma float_to_void:
  "is_convertible Access_Pointer (float_type\<lparr>unqualified := ''void''\<rparr>) {Read} float_type {Read}"
  "\<not> is_convertible Access_Pointer float_type {Read} (float_type\<lparr>unqualified := ''void''\<rparr>) {Read}"
  by (simp_all add: is_convertible_Access_Pointer float_type_def)




section \<open>Calls on expiring objects\<close>

text \<open>What a successful resolution says about the function it selects.\<close>

lemma resolve_Some:
  assumes "resolve fs c = Some f"
  shows "f \<in> set fs \<and> viable f c \<and>
         (\<forall>g \<in> set fs. viable g c \<longrightarrow> g = f \<or> better f g)"
proof -
  let ?vs = "filter (\<lambda>f. viable f c) fs"
  let ?best = "filter (\<lambda>f. list_all (\<lambda>g. g = f \<or> better f g) ?vs) ?vs"
  from assms have "?best = [f]"
    by (simp add: resolve_def Let_def split: list.splits)
  then have "f \<in> set ?best"
    by simp
  then have "f \<in> set ?vs" and "list_all (\<lambda>g. g = f \<or> better f g) ?vs"
    by simp_all
  then show ?thesis by (simp add: list_all_iff)
qed

text \<open>
  Every function of the tensor that a caller may use is \<open>&\<close>-qualified and has a deleted
  \<open>&&\<close>-qualified twin; the same holds of \<open>wait\<close>.
\<close>

lemma public_vTensor:
  assumes "f \<in> set vTensor_members" and "\<not> is_deleted f" and "\<not> is_private f"
  shows "ref f = lvalue_ref \<and>
         f\<lparr>ref := rvalue_ref, is_deleted := True, is_private := True\<rparr> \<in> set vTensor_members"
  using assms
  apply (simp only: vTensor_members_def list.set insert_iff empty_iff)
  apply (elim disjE)
  apply simp_all
  done

lemma public_Future:
  assumes "f \<in> set Future_members" and "\<not> is_deleted f" and "\<not> is_private f"
  shows "ref f = lvalue_ref \<and>
         f\<lparr>ref := rvalue_ref, is_deleted := True, is_private := True\<rparr> \<in> set Future_members"
  using assms
  apply (simp only: Future_members_def list.set insert_iff empty_iff)
  apply (elim disjE)
  apply simp_all
  done

text \<open>
  On an rvalue the twin is viable whenever the function is, and the function is not
  better than its twin: the function is never selected.
\<close>

lemma rvalue_selects_deleted:
  assumes rv: "object_rvalue c"
    and pub: "\<And>f. f \<in> set fs \<Longrightarrow> \<not> is_deleted f \<Longrightarrow> \<not> is_private f \<Longrightarrow>
               ref f = lvalue_ref \<and>
               f\<lparr>ref := rvalue_ref, is_deleted := True, is_private := True\<rparr> \<in> set fs"
  shows "\<not> well_formed fs c"
proof
  assume "well_formed fs c"
  then obtain f where f: "resolve fs c = Some f" "\<not> is_deleted f" "\<not> is_private f"
    by (auto simp add: well_formed_def split: option.splits)
  let ?g = "f\<lparr>ref := rvalue_ref, is_deleted := True, is_private := True\<rparr>"
  from resolve_Some[OF f(1)] have mem: "f \<in> set fs" and v: "viable f c"
    and best: "\<forall>g \<in> set fs. viable g c \<longrightarrow> g = f \<or> better f g" by simp_all
  from pub[OF mem f(2,3)] have r: "ref f = lvalue_ref" and g: "?g \<in> set fs" by simp_all
  from v rv r have cq: "is_const f" by (simp add: viable_def binds_def)
  from v rv cq have "viable ?g c" by (simp add: viable_def binds_def)
  with best g have "?g = f \<or> better f ?g" by blast
  moreover have "?g \<noteq> f"
  proof
    assume "?g = f"
    then have "is_deleted ?g = is_deleted f" by simp
    with f(2) show False by simp
  qed
  moreover from r cq have "\<not> better f ?g" by (simp add: better_def)
  ultimately show False by simp
qed

text \<open>
  C9. No call of \<open>host\<close>, \<open>buffer\<close> or \<open>image\<close> on an expiring tensor compiles, whatever its
  template arguments, its arguments and the constness of the tensor, and no call of
  \<open>wait\<close> on an expiring Future compiles: \<open>wait\<close> can be called on an lvalue only.
\<close>

theorem rvalue_calls_rejected:
  assumes "object_rvalue c"
  shows "\<not> well_formed vTensor_members c \<and> \<not> well_formed Future_members c"
  using assms rvalue_selects_deleted public_vTensor public_Future by blast

theorem rvalue_calls_rejected_witness:
  "object_rvalue \<lparr>callee = ''wait'', template_arguments = 0, arguments = 0,
                  object_const = False, object_rvalue = True\<rparr> \<and>
   \<not> well_formed Future_members
       \<lparr>callee = ''wait'', template_arguments = 0, arguments = 0,
        object_const = False, object_rvalue = True\<rparr> \<and>
   object_rvalue \<lparr>callee = ''host'', template_arguments = 2, arguments = 0,
                  object_const = False, object_rvalue = True\<rparr> \<and>
   \<not> well_formed vTensor_members
       \<lparr>callee = ''host'', template_arguments = 2, arguments = 0,
        object_const = False, object_rvalue = True\<rparr>"
  using
    rvalue_calls_rejected
      [of "\<lparr>callee = ''wait'', template_arguments = 0, arguments = 0,
            object_const = False, object_rvalue = True\<rparr>"]
    rvalue_calls_rejected
      [of "\<lparr>callee = ''host'', template_arguments = 2, arguments = 0,
            object_const = False, object_rvalue = True\<rparr>"]
  by simp

text \<open>
  The same calls on an lvalue compile: the read accessors on a tensor that is const or
  not, the accessors that take an access on a tensor that is not const.
\<close>

lemma lvalue_calls_compile:
  "well_formed Future_members
     \<lparr>callee = ''wait'', template_arguments = 0, arguments = 0,
      object_const = cq, object_rvalue = False\<rparr>"
  "well_formed vTensor_members
     \<lparr>callee = ''host'', template_arguments = 1, arguments = 0,
      object_const = cq, object_rvalue = False\<rparr>"
  "well_formed vTensor_members
     \<lparr>callee = ''host'', template_arguments = 2, arguments = 0,
      object_const = False, object_rvalue = False\<rparr>"
  "well_formed vTensor_members
     \<lparr>callee = ''buffer'', template_arguments = 0, arguments = 0,
      object_const = cq, object_rvalue = False\<rparr>"
  "well_formed vTensor_members
     \<lparr>callee = ''buffer'', template_arguments = 0, arguments = 1,
      object_const = False, object_rvalue = False\<rparr>"
  "well_formed vTensor_members
     \<lparr>callee = ''image'', template_arguments = 0, arguments = 0,
      object_const = cq, object_rvalue = False\<rparr>"
  "well_formed vTensor_members
     \<lparr>callee = ''image'', template_arguments = 0, arguments = 1,
      object_const = False, object_rvalue = False\<rparr>"
  by (simp_all add: well_formed_def resolve_def vTensor_members_def Future_members_def
      viable_def binds_def better_def)

section \<open>Dirty bits under the synchronization algorithm\<close>

lemma nonempty_access: "access \<noteq> {} \<Longrightarrow> Read \<in> access \<or> Write \<in> access"
  by (metis Access.exhaust ex_in_conv)

text \<open>
  C3. An access with Write on a representation completes, clears the dirty bit of that
  representation and sets the dirty bits of the other two, whatever the bits were.
\<close>

theorem write_invalidates_siblings:
  assumes "Write \<in> access"
  shows "\<exists>d'. synchronize ok R access d = Inr (d', None) \<and>
              \<not> dirty R d' \<and> (\<forall>Y. Y \<noteq> R \<longrightarrow> dirty Y d')"
proof (cases R)
  case Image
  have "dirty Y (d\<lparr>image := False, buffer := True, staging := True\<rparr>)" if "Y \<noteq> Image" for Y
    using that by (cases Y) simp_all
  with assms Image show ?thesis by (simp add: synchronize_def)
next
  case Buffer
  have "dirty Y (d\<lparr>buffer := False, image := True, staging := True\<rparr>)" if "Y \<noteq> Buffer" for Y
    using that by (cases Y) simp_all
  with assms Buffer show ?thesis by (simp add: synchronize_def)
next
  case Staging
  have "dirty Y (d\<lparr>staging := False, buffer := True, image := True\<rparr>)" if "Y \<noteq> Staging" for Y
    using that by (cases Y) simp_all
  with assms Staging show ?thesis by (simp add: synchronize_def)
qed

theorem write_invalidates_siblings_witness:
  "Write \<in> {Read, Write} \<and>
   synchronize False Buffer {Read, Write} \<lparr>image = False, buffer = True, staging = False\<rparr> =
     Inr (\<lparr>image = True, buffer = False, staging = True\<rparr>, None)"
  using write_invalidates_siblings [of "{Read, Write}" False Buffer
      "\<lparr>image = False, buffer = True, staging = False\<rparr>"]
  by (simp add: synchronize_def)

text \<open>
  One call that completes leaves at most two bits set, when it has an access or when at
  most two bits were set before.
\<close>

lemma synchronize_at_most_two:
  assumes "synchronize ok R access d = Inr (d', c)" and "access \<noteq> {} \<or> at_most_two d"
  shows "at_most_two d'"
proof (cases "access = {}")
  case True
  with assms show ?thesis by (cases R) (simp_all add: synchronize_def)
next
  case False
  then have "Read \<in> access \<or> Write \<in> access" by (rule nonempty_access)
  with assms(1) show ?thesis
    by (cases R) (auto simp add: synchronize_def at_most_two_def Let_def split: if_splits)
qed

text \<open>
  C4. Along every sequence of access calls, after each call that completes at most two
  of the three dirty bits are set. This holds from a tensor with at most two bits set
  under any accesses, and from any tensor when every call has Read or Write in its
  access.
\<close>

theorem at_most_two_dirty:
  assumes "at_most_two d0 \<or> (\<forall>(R, access, ok) \<in> set cs. access \<noteq> {})"
  shows "\<forall>d \<in> set (accesses cs d0). at_most_two d"
  using assms
proof (induction cs arbitrary: d0)
  case Nil
  then show ?case by simp
next
  case (Cons c cs)
  obtain R access ok where c: "c = (R, access, ok)" by (cases c)
  show ?case
  proof (cases "synchronize ok R access d0")
    case (Inl e)
    from Cons.prems c
    have "at_most_two d0 \<or> (\<forall>(R, access, ok) \<in> set cs. access \<noteq> {})" by auto
    from Cons.IH[OF this] show ?thesis using c Inl by simp
  next
    case (Inr r)
    obtain d' cv where r: "r = (d', cv)" by (cases r)
    from Cons.prems c have "access \<noteq> {} \<or> at_most_two d0" by auto
    with Inr r have a: "at_most_two d'" using synchronize_at_most_two by blast
    then have "at_most_two d' \<or> (\<forall>(R, access, ok) \<in> set cs. access \<noteq> {})" by simp
    from Cons.IH[OF this] a show ?thesis using c Inr r by simp
  qed
qed

theorem at_most_two_dirty_witness:
  "accesses [(Staging, {Read}, False), (Buffer, {Read}, True), (Image, {Read, Write}, True),
             (Staging, {Read}, True)]
     \<lparr>image = True, buffer = True, staging = True\<rparr> =
     [\<lparr>image = True, buffer = False, staging = True\<rparr>,
      \<lparr>image = False, buffer = True, staging = True\<rparr>,
      \<lparr>image = False, buffer = True, staging = False\<rparr>] \<and>
   at_most_two \<lparr>image = True, buffer = False, staging = True\<rparr> \<and>
   at_most_two \<lparr>image = False, buffer = True, staging = True\<rparr> \<and>
   at_most_two \<lparr>image = False, buffer = True, staging = False\<rparr>"
  using at_most_two_dirty [of "\<lparr>image = True, buffer = True, staging = True\<rparr>"
      "[(Staging, {Read}, False), (Buffer, {Read}, True), (Image, {Read, Write}, True),
        (Staging, {Read}, True)]"]
  by (simp add: synchronize_def at_most_two_def)

end
